theory Spec2Isabelle
  imports Main "HOL-Library.Word"
begin

section \<open>JavaScript values used by \<open>src/index.js\<close>\<close>

text \<open>
  A JavaScript string is a sequence of 16-bit code units; \<open>length\<close>, \<open>slice\<close>,
  \<open>search\<close> and the regular expressions of the action (none has the \<open>u\<close> flag) all
  count code units.
\<close>

type_synonym code_unit = "16 word"
type_synonym jsstring = "code_unit list"

definition str :: "string \<Rightarrow> jsstring" where
  "str s = map of_char s"

definition nl :: jsstring where
  "nl = [0x0A]"

text \<open>
  The values that are interpolated into template literals or tested for truthiness:
  \<open>undefined\<close> (an unassigned \<open>let\<close>), \<open>null\<close> (a pull request without a
  description has \<open>body: null\<close>) and strings.
\<close>

datatype jsval = Undefined | Null | Str jsstring

fun truthy :: "jsval \<Rightarrow> bool" where
  "truthy Undefined = False"
| "truthy Null = False"
| "truthy (Str s) = (s \<noteq> [])"

text \<open>\<open>`${v}`\<close>: the text a template literal puts in for a value.\<close>

fun to_string :: "jsval \<Rightarrow> jsstring" where
  "to_string Undefined = str ''undefined''"
| "to_string Null = str ''null''"
| "to_string (Str s) = s"

text \<open>
  \<open>String.prototype.slice(a, b)\<close> and \<open>slice(a)\<close>: a negative index counts from the
  end, both are clamped to the string.
\<close>

definition js_slice :: "jsstring \<Rightarrow> int \<Rightarrow> int \<Rightarrow> jsstring" where
  "js_slice s a b =
     (let n = int (length s);
          lo = (if a < 0 then max (n + a) 0 else min a n);
          hi = (if b < 0 then max (n + b) 0 else min b n)
      in take (nat (hi - lo)) (drop (nat lo) s))"

definition js_slice_from :: "jsstring \<Rightarrow> int \<Rightarrow> jsstring" where
  "js_slice_from s a = js_slice s a (int (length s))"

text \<open>
  \<open>core.getInput(name).toLowerCase() === 'true'\<close> (lines 22 to 28). Only the letters
  \<open>A\<close> to \<open>Z\<close> are lowered here: no character outside ASCII has a lower case that
  consists of the letters of \<open>true\<close>, so the comparison is the same as JavaScript's.
\<close>

definition to_lower_ascii :: "code_unit \<Rightarrow> code_unit" where
  "to_lower_ascii c = (if 0x41 \<le> c \<and> c \<le> 0x5A then c + 0x20 else c)"

definition flag :: "jsstring \<Rightarrow> bool" where
  "flag s \<longleftrightarrow> map to_lower_ascii s = str ''true''"

section \<open>The key pattern (line 30)\<close>

text \<open>
  \<open>const jiraTicketFormat = /[^A-Za-z].([A-Za-z]+-\d+)/\<close>: one code unit that is not
  a letter, one code unit that is not a line terminator (the dot), and the group:
  letters, a hyphen, digits.
\<close>

definition is_letter :: "code_unit \<Rightarrow> bool" where
  "is_letter c \<longleftrightarrow> (0x41 \<le> c \<and> c \<le> 0x5A) \<or> (0x61 \<le> c \<and> c \<le> 0x7A)"

definition is_digit :: "code_unit \<Rightarrow> bool" where
  "is_digit c \<longleftrightarrow> 0x30 \<le> c \<and> c \<le> 0x39"

definition is_line_terminator :: "code_unit \<Rightarrow> bool" where
  "is_line_terminator c \<longleftrightarrow> c = 0x0A \<or> c = 0x0D \<or> c = 0x2028 \<or> c = 0x2029"

text \<open>
  The pattern tried at the start of the input; the result is the match array
  \<open>[match, group 1]\<close>. Both quantifiers are greedy. \<open>[A-Za-z]+\<close> takes the whole run
  of letters: a shorter run would have to be followed by a hyphen, and the code unit
  after it is a letter. \<open>\d+\<close> ends the pattern, so its longest run is the match.
\<close>

definition jiraTicketFormat_at :: "jsstring \<Rightarrow> jsstring list option" where
  "jiraTicketFormat_at s =
     (case s of
        c # d # rest \<Rightarrow>
          if \<not> is_letter c \<and> \<not> is_line_terminator d then
            (let letters = takeWhile is_letter rest;
                 after_letters = dropWhile is_letter rest
             in if letters = [] then None
                else (case after_letters of
                        [] \<Rightarrow> None
                      | h # after_hyphen \<Rightarrow>
                          if h = 0x2D then
                            (let digits = takeWhile is_digit after_hyphen
                             in if digits = [] then None
                                else Some [c # d # letters @ h # digits, letters @ h # digits])
                          else None))
          else None
      | _ \<Rightarrow> None)"

text \<open>\<open>s.match(jiraTicketFormat)\<close>: the leftmost position where the pattern matches, or \<open>null\<close>.\<close>

fun match_jiraTicketFormat :: "jsstring \<Rightarrow> jsstring list option" where
  "match_jiraTicketFormat [] = None"
| "match_jiraTicketFormat (c # cs) =
     (case jiraTicketFormat_at (c # cs) of
        Some m \<Rightarrow> Some m
      | None \<Rightarrow> match_jiraTicketFormat cs)"

text \<open>\<open>if (found) found.shift()\<close>: the array without its first element.\<close>

definition shift :: "jsstring list option \<Rightarrow> jsstring list option" where
  "shift found = map_option tl found"

text \<open>An array is truthy, \<open>null\<close> is not.\<close>

definition truthy_match :: "jsstring list option \<Rightarrow> bool" where
  "truthy_match found \<longleftrightarrow> found \<noteq> None"

text \<open>\<open>[key] = found\<close>: the first element, \<open>undefined\<close> for an empty array.\<close>

definition first_of :: "jsstring list \<Rightarrow> jsval" where
  "first_of xs = (case xs of [] \<Rightarrow> Undefined | x # _ \<Rightarrow> Str x)"

text \<open>Lines 58 and 59.\<close>

definition foundInTitle_of :: "jsstring \<Rightarrow> jsstring list option" where
  "foundInTitle_of latestPrTitle = shift (match_jiraTicketFormat latestPrTitle)"

text \<open>Lines 60 to 67: the key from the title, and from the branch when the title gave none.\<close>

definition resolve_key :: "jsstring \<Rightarrow> jsstring \<Rightarrow> jsval" where
  "resolve_key latestPrTitle head_ref =
     (let foundInTitle = foundInTitle_of latestPrTitle;
          key = (case foundInTitle of None \<Rightarrow> Undefined | Some m \<Rightarrow> first_of m)
      in if \<not> truthy key then
           (case shift (match_jiraTicketFormat head_ref) of
              None \<Rightarrow> key
            | Some m \<Rightarrow> first_of m)
         else key)"

section \<open>Inputs, the event and the collaborators\<close>

text \<open>
  What \<open>core.getInput\<close> returns for each input of lines 11 to 28: the string given in
  the workflow with the white space at its ends removed, the empty string for an input
  that is not set. For a required input (\<open>githubToken\<close>, \<open>host\<close>) it throws when the
  string is empty before the white space is removed: \<open>githubToken_blank\<close> and
  \<open>host_blank\<close> say that the input was given and is white space only, so that the value
  is empty and nothing was thrown.
\<close>

record inputs =
  githubToken :: jsstring
  webhook :: jsstring
  host :: jsstring
  email :: jsstring
  token :: jsstring
  project :: jsstring
  transition :: jsstring
  version :: jsstring
  component :: jsstring
  type :: jsstring
  board :: jsstring
  isOnlyTransition :: jsstring
  isCreateIssue :: jsstring
  otherAssignedTransition :: jsstring
  isAssignToReporter :: jsstring
  isOnlyAppendDesc :: jsstring
  appendDescAfterRegex :: jsstring
  isAddFixVersionOnMerge :: jsstring
  githubToken_blank :: bool
  host_blank :: bool

text \<open>\<open>github.context.payload.pull_request\<close>, with the fields \<open>main\<close> reads.\<close>

record pull_request =
  number :: nat
  title :: jsstring
  body :: jsval
  head_ref :: jsstring
  merged :: bool
  html_url :: jsstring

text \<open>The argument of \<open>gitService.updatePR\<close>: a field that is absent is \<open>None\<close>.\<close>

datatype pr_update = PRUpdate (update_title: "jsstring option") (update_body: "jsstring option")

text \<open>
  What ends a run early by an exception: a \<open>TypeError\<close> of the runtime, the
  \<open>SyntaxError\<close> of a pattern that is not a regular expression, an \<open>Error\<close> thrown
  with a message, and the rejection of an awaited collaborator call.
\<close>

datatype failure = TypeError | SyntaxError | Error jsstring | Rejected jsstring

text \<open>
  The first match of a regular expression built from a pattern string by the runtime
  (\<open>body.search(pattern)\<close> and \<open>body.match(pattern)\<close> both build it anew): the pattern
  is not a regular expression, or there is no match, or the match starts at an index
  and has a text.
\<close>

datatype rx_result = Invalid | NoMatch | Match nat jsstring

text \<open>
  The calls \<open>main\<close> makes to the outside, in the order it makes them: the requests to
  the repository host, the methods of \<open>./services/jira\<close>, \<open>./services/github\<close> and
  \<open>./services/request\<close>, and the log lines of \<open>@actions/core\<close>.
\<close>

datatype call =
    GetPull nat
  | GetIssueSummary jsval
  | Request jsstring jsval
  | GetVersionIdByPrefix jsstring
  | PutFixVersion jsval jsval
  | UpdatePR pr_update
  | PostComment jsval jsstring
  | GetUser jsstring
  | GetUserIdByFuzzyName jsval
  | PostIssue jsstring jsval
  | GetSprints
  | PostMoveIssuesToSprint jsval jsval
  | IsMeCreatedIssue jsval
  | PostTransitIssue jsval jsstring
  | GetIssueReporterId jsval
  | PutAssignIssue jsval jsval
  | Info jsstring
  | InfoError failure
  | SetFailed jsstring

text \<open>The calls that change something outside the run.\<close>

fun mutating :: "call \<Rightarrow> bool" where
  "mutating (Request _ _) = True"
| "mutating (PutFixVersion _ _) = True"
| "mutating (UpdatePR _) = True"
| "mutating (PostComment _ _) = True"
| "mutating (PostIssue _ _) = True"
| "mutating (PostMoveIssuesToSprint _ _) = True"
| "mutating (PostTransitIssue _ _) = True"
| "mutating (PutAssignIssue _ _) = True"
| "mutating _ = False"

fun is_UpdatePR :: "call \<Rightarrow> bool" where
  "is_UpdatePR (UpdatePR _) = True"
| "is_UpdatePR _ = False"

fun is_PostComment :: "call \<Rightarrow> bool" where
  "is_PostComment (PostComment _ _) = True"
| "is_PostComment _ = False"

fun is_PostIssue :: "call \<Rightarrow> bool" where
  "is_PostIssue (PostIssue _ _) = True"
| "is_PostIssue _ = False"

text \<open>
  The event and what each collaborator answers: \<open>Inl\<close> is a rejected promise. A
  collaborator is called at most once in a run, so its answer is a function of its
  arguments. \<open>getPull\<close> is \<open>latestPr.data.title\<close>, \<open>getUser\<close> is \<open>userData.data.name\<close>,
  \<open>postIssue\<close> is \<open>issue.key\<close> and \<open>getSprints\<close> is the \<open>id\<close>s of \<open>values\<close>.
\<close>

record world =
  pull_request :: "pull_request option"
  actor :: jsstring
  regexp_exec :: "jsstring \<Rightarrow> jsstring \<Rightarrow> rx_result"
  getPull :: "failure + jsval"
  getIssueSummary :: "jsval \<Rightarrow> failure + jsval"
  request :: "jsstring \<Rightarrow> jsval \<Rightarrow> failure + unit"
  getVersionIdByPrefix :: "jsstring \<Rightarrow> failure + jsval"
  putFixVersion :: "jsval \<Rightarrow> jsval \<Rightarrow> failure + unit"
  updatePR :: "pr_update \<Rightarrow> failure + unit"
  postComment :: "jsval \<Rightarrow> jsstring \<Rightarrow> failure + unit"
  getUser :: "jsstring \<Rightarrow> failure + jsval"
  getUserIdByFuzzyName :: "jsval \<Rightarrow> failure + jsval"
  postIssue :: "jsstring \<Rightarrow> jsval \<Rightarrow> failure + jsval"
  getSprints :: "failure + jsval list"
  postMoveIssuesToSprint :: "jsval \<Rightarrow> jsval \<Rightarrow> failure + unit"
  isMeCreatedIssue :: "jsval \<Rightarrow> failure + bool"
  postTransitIssue :: "jsval \<Rightarrow> jsstring \<Rightarrow> failure + unit"
  getIssueReporterId :: "jsval \<Rightarrow> failure + jsval"
  putAssignIssue :: "jsval \<Rightarrow> jsval \<Rightarrow> failure + unit"

section \<open>Runs\<close>

text \<open>
  How a run ends: \<open>process.exit(0)\<close>, an exception that reaches
  \<open>main().catch(core.setFailed)\<close>, or the end of \<open>main\<close>.
\<close>

datatype outcome = Exit0 | Failed failure | Finished

text \<open>
  A piece of \<open>main\<close>: the calls it made, and either how the run ended in it (\<open>Inl\<close>) or
  the value it goes on with (\<open>Inr\<close>).
\<close>

type_synonym 'a run = "call list \<times> (outcome + 'a)"

definition continue :: "'a \<Rightarrow> 'a run" where
  "continue x = ([], Inr x)"

definition and_then :: "'a run \<Rightarrow> ('a \<Rightarrow> 'b run) \<Rightarrow> 'b run" where
  "and_then m f =
     (case m of
        (calls, Inl out) \<Rightarrow> (calls, Inl out)
      | (calls, Inr x) \<Rightarrow> (case f x of (calls', r) \<Rightarrow> (calls @ calls', r)))"

text \<open>\<open>await collaborator(...)\<close>: the call is made; a rejection ends the run.\<close>

definition await :: "call \<Rightarrow> failure + 'a \<Rightarrow> 'a run" where
  "await c answer = ([c], case answer of Inl e \<Rightarrow> Inl (Failed e) | Inr x \<Rightarrow> Inr x)"

text \<open>\<open>await collaborator(...).catch(core.info)\<close>: a rejection is logged and the value is \<open>undefined\<close>.\<close>

definition await_catch_info :: "call \<Rightarrow> failure + jsval \<Rightarrow> jsval run" where
  "await_catch_info c answer =
     (case answer of
        Inl e \<Rightarrow> ([c, InfoError e], Inr Undefined)
      | Inr x \<Rightarrow> ([c], Inr x))"

definition info :: "jsstring \<Rightarrow> unit run" where
  "info msg = ([Info msg], Inr ())"

definition exit0 :: "'a run" where
  "exit0 = ([], Inl Exit0)"

definition throw :: "failure \<Rightarrow> 'a run" where
  "throw e = ([], Inl (Failed e))"

section \<open>The pieces of \<open>main\<close>\<close>

text \<open>
  The link of lines 97 and 103 (webhook branch): the summary is put in when
  \<open>issueTitle\<close> is truthy.
\<close>

definition webhook_link :: "jsval \<Rightarrow> jsval \<Rightarrow> jsstring \<Rightarrow> jsstring" where
  "webhook_link key issueTitle host_url =
     str ''['' @ to_string key
       @ (if truthy issueTitle then str '': '' @ to_string issueTitle else [])
       @ str '']('' @ host_url @ str ''/browse/'' @ to_string key @ str '')''"

text \<open>
  The link of lines 138 and 210 (append-only branch and the end of \<open>main\<close>): \<open>issueTitle\<close>
  is put in when \<open>foundInTitle\<close> is truthy.
\<close>

definition tail_link :: "jsval \<Rightarrow> jsstring list option \<Rightarrow> jsval \<Rightarrow> jsstring \<Rightarrow> jsstring" where
  "tail_link key foundInTitle issueTitle host_url =
     str ''['' @ to_string key
       @ (if truthy_match foundInTitle then str '': '' @ to_string issueTitle else [])
       @ str '']('' @ host_url @ str ''/browse/'' @ to_string key @ str '')''"

text \<open>\<open>`${link}\n${pr.body}`\<close> of lines 97, 103 and 210.\<close>

definition link_then_body :: "jsstring \<Rightarrow> jsval \<Rightarrow> jsstring" where
  "link_then_body link pr_body = link @ nl @ to_string pr_body"

text \<open>
  Lines 126 to 138, with the link of line 138 as \<open>link\<close>. \<open>pr.body.search\<close> and
  \<open>pr.body.slice\<close> are method calls on \<open>pr.body\<close>: a \<open>TypeError\<close> when it is \<open>null\<close>
  or \<open>undefined\<close>.
\<close>

definition appendDesc_body ::
  "(jsstring \<Rightarrow> jsstring \<Rightarrow> rx_result) \<Rightarrow> jsstring \<Rightarrow> jsval \<Rightarrow> jsstring \<Rightarrow> failure + jsstring" where
  "appendDesc_body rx pattern pr_body link =
     (case pr_body of
        Str b \<Rightarrow>
          (case (if pattern \<noteq> [] then
                   (case rx pattern b of
                      Invalid \<Rightarrow> Inl SyntaxError
                    | NoMatch \<Rightarrow> Inr (0, 0)
                    | Match i word \<Rightarrow> Inr (int i, int (length word)))
                 else Inr (0, 0)) of
             Inl e \<Rightarrow> Inl e
           | Inr (from, len) \<Rightarrow>
               Inr (js_slice b 0 (from + len)
                    @ (if from = 0 then [] else str '' '')
                    @ link
                    @ (if from = 0 then nl else [])
                    @ js_slice_from b (from + len)))
      | _ \<Rightarrow> Inl TypeError)"

text \<open>Lines 71 to 75.\<close>

definition fetch_summary :: "inputs \<Rightarrow> world \<Rightarrow> jsval \<Rightarrow> jsval run" where
  "fetch_summary inp w key =
     (if email inp \<noteq> [] \<and> token inp \<noteq> [] \<and> truthy key then
        and_then (info (str ''Detected jira issue in PR title/branch: '' @ to_string key)) (\<lambda>_.
        await (GetIssueSummary key) (getIssueSummary w key))
      else continue Undefined)"

text \<open>The comment of lines 108 and 196: a block card with \<open>pr.html_url\<close>.\<close>

definition comment_pr :: "world \<Rightarrow> pull_request \<Rightarrow> jsval \<Rightarrow> unit run" where
  "comment_pr w pr key = await (PostComment key (html_url pr)) (postComment w key (html_url pr))"

text \<open>Lines 77 to 123.\<close>

definition webhook_mode ::
  "inputs \<Rightarrow> world \<Rightarrow> pull_request \<Rightarrow> jsstring \<Rightarrow> jsstring list option \<Rightarrow> jsval \<Rightarrow> jsval \<Rightarrow> unit run" where
  "webhook_mode inp w pr latestPrTitle foundInTitle key issueTitle =
     (if \<not> truthy key then
        and_then (info (str ''No jira issue detected in PR title/branch'')) (\<lambda>_. exit0)
      else
        and_then (await (Request (webhook inp) key) (request w (webhook inp) key)) (\<lambda>_.
        and_then (info (str ''webhook complete'')) (\<lambda>_.
        and_then
          (if merged pr then
             and_then
               (if flag (isAddFixVersionOnMerge inp) then
                  and_then (await (GetVersionIdByPrefix (version inp))
                              (getVersionIdByPrefix w (version inp))) (\<lambda>versionId.
                  await (PutFixVersion key versionId) (putFixVersion w key versionId))
                else continue ()) (\<lambda>_.
             exit0)
           else continue ()) (\<lambda>_.
        and_then
          (let new_body = link_then_body (webhook_link key issueTitle (host inp)) (body pr);
               update = (if truthy_match foundInTitle then PRUpdate None (Some new_body)
                         else PRUpdate (Some (latestPrTitle @ str '' ['' @ to_string key @ str '']''))
                                (Some new_body))
           in await (UpdatePR update) (updatePR w update)) (\<lambda>_.
        and_then
          (if email inp \<noteq> [] \<and> token inp \<noteq> [] then comment_pr w pr key else continue ()) (\<lambda>_.
        exit0))))))"

text \<open>Lines 125 to 143.\<close>

definition appendDesc_mode ::
  "inputs \<Rightarrow> world \<Rightarrow> pull_request \<Rightarrow> jsstring list option \<Rightarrow> jsval \<Rightarrow> jsval \<Rightarrow> unit run" where
  "appendDesc_mode inp w pr foundInTitle key issueTitle =
     (case appendDesc_body (regexp_exec w) (appendDescAfterRegex inp) (body pr)
             (tail_link key foundInTitle issueTitle (host inp)) of
        Inl e \<Rightarrow> throw e
      | Inr new_body \<Rightarrow>
          and_then (await (UpdatePR (PRUpdate None (Some new_body)))
                      (updatePR w (PRUpdate None (Some new_body)))) (\<lambda>_.
          and_then (info (str ''update PR description complete'')) (\<lambda>_.
          exit0)))"

text \<open>
  Lines 145 to 169; the result is the new \<open>key\<close> and \<open>issueTitle\<close>. The pattern
  \<open>{ values: [{ id: activeSprintId }] }\<close> of line 166 throws a \<open>TypeError\<close> when
  \<open>values\<close> is empty.
\<close>

definition createIssue_mode ::
  "inputs \<Rightarrow> world \<Rightarrow> jsstring \<Rightarrow> jsstring list option \<Rightarrow> jsval \<Rightarrow> (jsval \<times> jsval) run" where
  "createIssue_mode inp w latestPrTitle foundInTitle key =
     (if project inp = [] then throw (Error (str ''Creating issue need project''))
      else if type inp = [] then throw (Error (str ''Creating issue need type''))
      else if truthy_match foundInTitle \<or> truthy key then
        and_then (info (str ''Jira issue detected in PR title/branch'')) (\<lambda>_. exit0)
      else
        and_then (info (str ''No jira issue detected in PR title/branch'')) (\<lambda>_.
        and_then (await (GetUser (actor w)) (getUser w (actor w))) (\<lambda>fullName.
        and_then (await_catch_info (GetUserIdByFuzzyName fullName)
                    (getUserIdByFuzzyName w fullName)) (\<lambda>userId.
        and_then (await (PostIssue latestPrTitle userId) (postIssue w latestPrTitle userId)) (\<lambda>issue_key.
        and_then
          (if board inp \<noteq> [] then
             and_then (await GetSprints (getSprints w)) (\<lambda>values.
             case values of
               [] \<Rightarrow> throw TypeError
             | activeSprintId # _ \<Rightarrow>
                 await (PostMoveIssuesToSprint issue_key activeSprintId)
                   (postMoveIssuesToSprint w issue_key activeSprintId))
           else continue ()) (\<lambda>_.
        continue (issue_key, Str latestPrTitle)))))))"

text \<open>Lines 171 to 216.\<close>

definition shared_tail ::
  "inputs \<Rightarrow> world \<Rightarrow> pull_request \<Rightarrow> jsstring \<Rightarrow> jsstring list option \<Rightarrow> jsval \<Rightarrow> jsval \<Rightarrow> unit run" where
  "shared_tail inp w pr latestPrTitle foundInTitle key issueTitle =
     (if \<not> truthy key then
        and_then (info (str ''No jira issue detected in PR title/branch'')) (\<lambda>_. exit0)
      else
        and_then
          (if otherAssignedTransition inp \<noteq> [] then
             and_then (await (IsMeCreatedIssue key) (isMeCreatedIssue w key)) (\<lambda>isMeCreatedIssue.
             continue (if \<not> isMeCreatedIssue then otherAssignedTransition inp else transition inp))
           else continue (transition inp)) (\<lambda>transition.
        and_then
          (if transition \<noteq> [] then
             await (PostTransitIssue key transition) (postTransitIssue w key transition)
           else continue ()) (\<lambda>_.
        if flag (isOnlyTransition inp) then
          and_then (info (str ''transit completed'')) (\<lambda>_. exit0)
        else
          and_then
            (if flag (isAssignToReporter inp) then
               and_then (await (GetIssueReporterId key) (getIssueReporterId w key)) (\<lambda>reporterId.
               await (PutAssignIssue key reporterId) (putAssignIssue w key reporterId))
             else continue ()) (\<lambda>_.
          and_then (comment_pr w pr key) (\<lambda>_.
          and_then
            (let newPR = PRUpdate
                   (if flag (isCreateIssue inp) \<or> \<not> truthy_match foundInTitle
                    then Some (latestPrTitle @ str '' ['' @ to_string key @ str '']'')
                    else None)
                   (Some (link_then_body (tail_link key foundInTitle issueTitle (host inp)) (body pr)))
             in await (UpdatePR newPR) (updatePR w newPR)) (\<lambda>_.
          and_then (info (str ''New issue created'')) (\<lambda>_.
          ([], Inl Finished))))))))"

section \<open>\<open>main\<close> (lines 10 to 217)\<close>

text \<open>
  \<open>core.getInput\<close> throws for a required input that was not given (lines 11 and 13). Without
  a pull request in the payload the failure is set and \<open>pr.number\<close> of line 53 throws.
  \<open>latestPrTitle\<close> is the title just fetched when it is truthy, \<open>pr.title\<close> otherwise.
\<close>

definition latestPrTitle_of :: "jsval \<Rightarrow> pull_request \<Rightarrow> jsstring" where
  "latestPrTitle_of data_title pr = (if truthy data_title then to_string data_title else title pr)"

definition main :: "inputs \<Rightarrow> world \<Rightarrow> unit run" where
  "main inp w =
     (if githubToken inp = [] \<and> \<not> githubToken_blank inp then
        throw (Error (str ''Input required and not supplied: githubToken''))
      else if host inp = [] \<and> \<not> host_blank inp then
        throw (Error (str ''Input required and not supplied: host''))
      else
        (case pull_request w of
           None \<Rightarrow> ([SetFailed (str ''Only support pull request trigger'')], Inl (Failed TypeError))
         | Some pr \<Rightarrow>
             and_then (await (GetPull (number pr)) (getPull w)) (\<lambda>data_title.
             let latestPrTitle = latestPrTitle_of data_title pr;
                 foundInTitle = foundInTitle_of latestPrTitle;
                 key = resolve_key latestPrTitle (head_ref pr)
             in and_then (fetch_summary inp w key) (\<lambda>issueTitle.
                if webhook inp \<noteq> [] then
                  webhook_mode inp w pr latestPrTitle foundInTitle key issueTitle
                else if flag (isOnlyAppendDesc inp) then
                  appendDesc_mode inp w pr foundInTitle key issueTitle
                else
                  and_then
                    (if flag (isCreateIssue inp) then
                       createIssue_mode inp w latestPrTitle foundInTitle key
                     else continue (key, issueTitle)) (\<lambda>(key, issueTitle).
                  shared_tail inp w pr latestPrTitle foundInTitle key issueTitle)))))"

section \<open>Concrete runs\<close>

text \<open>
  A runtime for patterns without metacharacters, where a regular expression matches
  exactly the occurrences of the pattern's text: the first occurrence, from the left.
\<close>

fun find_literal :: "jsstring \<Rightarrow> jsstring \<Rightarrow> nat \<Rightarrow> rx_result" where
  "find_literal p [] i = (if p = [] then Match i [] else NoMatch)"
| "find_literal p (c # cs) i =
     (if take (length p) (c # cs) = p then Match i p else find_literal p cs (Suc i))"

definition literal_exec :: "jsstring \<Rightarrow> jsstring \<Rightarrow> rx_result" where
  "literal_exec p s = find_literal p s 0"

text \<open>Only the two required inputs are set.\<close>

definition example_inputs :: inputs where
  "example_inputs =
     \<lparr> githubToken = str ''ghs_token'', webhook = [], host = str ''https://jira.example.com'',
       email = [], token = [], project = [], transition = [], version = [], component = [],
       type = [], board = [], isOnlyTransition = [], isCreateIssue = [],
       otherAssignedTransition = [], isAssignToReporter = [], isOnlyAppendDesc = [],
       appendDescAfterRegex = [], isAddFixVersionOnMerge = [],
       githubToken_blank = False, host_blank = False \<rparr>"

definition example_pr :: "jsstring \<Rightarrow> jsstring \<Rightarrow> jsval \<Rightarrow> pull_request" where
  "example_pr pr_title branch pr_body =
     \<lparr> number = 7, title = pr_title, body = pr_body, head_ref = branch, merged = False,
       html_url = str ''https://github.com/o/r/pull/7'' \<rparr>"

text \<open>Every collaborator answers; the title fetched is the title of the event.\<close>

definition example_world :: "pull_request \<Rightarrow> world" where
  "example_world pr =
     \<lparr> pull_request = Some pr,
       actor = str ''octocat'',
       regexp_exec = literal_exec,
       getPull = Inr (Str (title pr)),
       getIssueSummary = (\<lambda>_. Inr (Str (str ''Login fails''))),
       request = (\<lambda>_ _. Inr ()),
       getVersionIdByPrefix = (\<lambda>_. Inr (Str (str ''10001''))),
       putFixVersion = (\<lambda>_ _. Inr ()),
       updatePR = (\<lambda>_. Inr ()),
       postComment = (\<lambda>_ _. Inr ()),
       getUser = (\<lambda>_. Inr (Str (str ''Mona Lisa''))),
       getUserIdByFuzzyName = (\<lambda>_. Inr (Str (str ''acc-1''))),
       postIssue = (\<lambda>_ _. Inr (Str (str ''AB-100''))),
       getSprints = Inr [Str (str ''5'')],
       postMoveIssuesToSprint = (\<lambda>_ _. Inr ()),
       isMeCreatedIssue = (\<lambda>_. Inr True),
       postTransitIssue = (\<lambda>_ _. Inr ()),
       getIssueReporterId = (\<lambda>_. Inr (Str (str ''acc-2''))),
       putAssignIssue = (\<lambda>_ _. Inr ()) \<rparr>"

section \<open>Facts about strings and the concrete runs\<close>

lemma str_Cons_not_Nil: "str (c # s) \<noteq> []"
  by (simp add: str_def)

lemma str_append: "str a @ str b = str (a @ b)"
  by (simp add: str_def)

lemma str_append_more: "str a @ str b @ rest = str (a @ b) @ rest"
  by (simp add: str_def)

lemma flag_values: "flag (str ''true'')" "\<not> flag []"
  by (simp_all add: flag_def str_def to_lower_ascii_def)

lemmas example_eval = example_inputs_def example_world_def example_pr_def
  str_Cons_not_Nil str_append str_append_more flag_values truthy_match_def
  link_then_body_def tail_link_def

section \<open>Facts about the key pattern\<close>

text \<open>A match array has the match and one group, and the group is not empty.\<close>

lemma jiraTicketFormat_at_shape:
  "jiraTicketFormat_at s = Some m \<Longrightarrow> \<exists>whole group. m = [whole, group] \<and> group \<noteq> []"
  by (auto simp: jiraTicketFormat_at_def Let_def split: list.splits if_splits)

lemma match_jiraTicketFormat_shape:
  "match_jiraTicketFormat s = Some m \<Longrightarrow> \<exists>whole group. m = [whole, group] \<and> group \<noteq> []"
  by (induction s) (auto split: option.splits dest: jiraTicketFormat_at_shape)

lemma foundInTitle_of_None: "foundInTitle_of t = None \<longleftrightarrow> match_jiraTicketFormat t = None"
  by (simp add: foundInTitle_of_def shift_def)

text \<open>No key is resolved exactly when neither the title nor the branch matches.\<close>

lemma resolve_key_Undefined:
  "resolve_key t b = Undefined \<longleftrightarrow> match_jiraTicketFormat t = None \<and> match_jiraTicketFormat b = None"
proof (cases "match_jiraTicketFormat t")
  case None
  show ?thesis
  proof (cases "match_jiraTicketFormat b")
    case None
    with \<open>match_jiraTicketFormat t = None\<close> show ?thesis
      by (simp add: resolve_key_def foundInTitle_of_def shift_def)
  next
    case (Some m)
    then obtain x g where "m = [x, g]" using match_jiraTicketFormat_shape by blast
    with Some \<open>match_jiraTicketFormat t = None\<close> show ?thesis
      by (simp add: resolve_key_def foundInTitle_of_def shift_def first_of_def)
  qed
next
  case (Some m)
  then obtain x g where "m = [x, g]" "g \<noteq> []" using match_jiraTicketFormat_shape by blast
  with Some show ?thesis
    by (simp add: resolve_key_def foundInTitle_of_def shift_def first_of_def)
qed

text \<open>The title matched exactly when the key is the group of the title's match.\<close>

lemma key_from_title:
  "truthy_match (foundInTitle_of t) \<longleftrightarrow>
     (\<exists>group. foundInTitle_of t = Some [group] \<and> resolve_key t b = Str group)"
proof (cases "match_jiraTicketFormat t")
  case None
  then show ?thesis by (simp add: truthy_match_def foundInTitle_of_def shift_def)
next
  case (Some m)
  then obtain x g where "m = [x, g]" "g \<noteq> []" using match_jiraTicketFormat_shape by blast
  with Some show ?thesis
    by (simp add: truthy_match_def resolve_key_def foundInTitle_of_def shift_def first_of_def)
qed

section \<open>Facts about runs\<close>

lemmas run_defs = and_then_def await_def info_def exit0_def throw_def continue_def

lemma fst_and_then:
  "fst (and_then m f) = (case snd m of Inl out \<Rightarrow> fst m | Inr x \<Rightarrow> fst m @ fst (f x))"
  by (cases m) (auto simp: and_then_def split: sum.splits prod.splits)

lemma snd_and_then:
  "snd (and_then m f) = (case snd m of Inl out \<Rightarrow> Inl out | Inr x \<Rightarrow> snd (f x))"
  by (cases m) (auto simp: and_then_def split: sum.splits prod.splits)

lemma fst_await: "fst (await c answer) = [c]"
  by (simp add: await_def)

lemma snd_await: "snd (await c answer) = (case answer of Inl e \<Rightarrow> Inl (Failed e) | Inr x \<Rightarrow> Inr x)"
  by (simp add: await_def)

lemmas run_sel = fst_and_then snd_and_then fst_await snd_await info_def exit0_def continue_def
  throw_def

text \<open>A property of every call of a piece follows the structure of the piece.\<close>

lemma calls_and_then:
  "list_all P (fst m) \<Longrightarrow> (\<And>x. snd m = Inr x \<Longrightarrow> list_all P (fst (f x)))
     \<Longrightarrow> list_all P (fst (and_then m f))"
  by (simp add: fst_and_then split: sum.splits)

lemma calls_await: "P c \<Longrightarrow> list_all P (fst (await c answer))"
  by (simp add: await_def)

lemma calls_info: "P (Info msg) \<Longrightarrow> list_all P (fst (info msg))"
  by (simp add: info_def)

lemma calls_exit0: "list_all P (fst exit0)"
  by (simp add: exit0_def)

lemma calls_continue: "list_all P (fst (continue x))"
  by (simp add: continue_def)

lemma calls_throw: "list_all P (fst (throw e))"
  by (simp add: throw_def)

lemma calls_if:
  "(b \<Longrightarrow> list_all P (fst m1)) \<Longrightarrow> (\<not> b \<Longrightarrow> list_all P (fst m2))
     \<Longrightarrow> list_all P (fst (if b then m1 else m2))"
  by simp

lemma calls_end: "list_all P (fst (([], r) :: 'a run))"
  by simp

lemmas calls_intros = calls_if calls_and_then calls_await calls_info calls_exit0 calls_continue
  calls_throw calls_end

text \<open>
  A call \<open>c0\<close> comes before every update of the pull request: the pieces before it make
  no update.
\<close>

lemma seq_skip:
  "list_all (\<lambda>c. \<not> is_UpdatePR c) (fst m)
   \<Longrightarrow> (\<And>x. snd m = Inr x \<Longrightarrow> list_ex is_UpdatePR (fst (f x)) \<longrightarrow> c0 \<in> set (fst (f x)))
   \<Longrightarrow> list_ex is_UpdatePR (fst (and_then m f)) \<longrightarrow> c0 \<in> set (fst (and_then m f))"
  by (auto simp: fst_and_then list_all_iff list_ex_iff split: sum.splits)

lemma seq_here:
  "c0 \<in> set (fst m)
   \<Longrightarrow> list_ex is_UpdatePR (fst (and_then m f)) \<longrightarrow> c0 \<in> set (fst (and_then m f))"
  by (auto simp: fst_and_then split: sum.splits)

lemma seq_none:
  "list_all (\<lambda>c. \<not> is_UpdatePR c) (fst m)
   \<Longrightarrow> list_ex is_UpdatePR (fst m) \<longrightarrow> c0 \<in> set (fst m)"
  by (auto simp: list_all_iff list_ex_iff)

lemma UpdatePR_in_calls: "UpdatePR u \<in> set calls \<Longrightarrow> list_ex is_UpdatePR calls"
  by (induction calls) auto

subsection \<open>The pieces\<close>

lemma fetch_summary_quiet:
  "list_all (\<lambda>c. \<not> is_UpdatePR c \<and> \<not> is_PostIssue c \<and> \<not> is_PostComment c)
     (fst (fetch_summary inp w key))"
  unfolding fetch_summary_def
  by (intro calls_intros; simp)

lemma createIssue_mode_quiet:
  "list_all (\<lambda>c. \<not> is_UpdatePR c \<and> \<not> is_PostComment c)
     (fst (createIssue_mode inp w T found key))"
  unfolding createIssue_mode_def await_catch_info_def
  by (intro calls_intros; simp add: run_sel split: sum.splits list.splits)

lemma createIssue_mode_created:
  assumes "snd (createIssue_mode inp w T found key) = Inr (new_key, new_title)"
  shows "list_ex is_PostIssue (fst (createIssue_mode inp w T found key))"
proof -
  have pre: "project inp \<noteq> []" "type inp \<noteq> []" "\<not> (truthy_match found \<or> truthy key)"
    using assms by (auto simp: createIssue_mode_def run_sel split: if_splits)
  obtain fullName where user: "getUser w (actor w) = Inr fullName"
    using assms pre by (cases "getUser w (actor w)") (auto simp: createIssue_mode_def run_sel)
  obtain userId where uid:
    "await_catch_info (GetUserIdByFuzzyName fullName) (getUserIdByFuzzyName w fullName)
       = (fst (await_catch_info (GetUserIdByFuzzyName fullName) (getUserIdByFuzzyName w fullName)),
          Inr userId)"
    by (cases "getUserIdByFuzzyName w fullName") (auto simp: await_catch_info_def)
  then have uid': "snd (await_catch_info (GetUserIdByFuzzyName fullName) (getUserIdByFuzzyName w fullName))
      = Inr userId"
    by (metis snd_conv)
  show ?thesis
    using pre user uid'
    by (simp add: createIssue_mode_def run_sel list_ex_iff split: sum.splits)
qed

lemma shared_tail_no_PostIssue:
  "list_all (\<lambda>c. \<not> is_PostIssue c) (fst (shared_tail inp w pr T found key issueTitle))"
  unfolding shared_tail_def comment_pr_def Let_def
  by (intro calls_intros; simp)

lemma shared_tail_only_update:
  "list_all (\<lambda>c. is_UpdatePR c \<longrightarrow> c = UpdatePR (PRUpdate
           (if flag (isCreateIssue inp) \<or> \<not> truthy_match found
            then Some (T @ str '' ['' @ to_string key @ str '']'') else None)
           (Some (link_then_body (tail_link key found issueTitle (host inp)) (body pr)))))
     (fst (shared_tail inp w pr T found key issueTitle))"
  unfolding shared_tail_def comment_pr_def Let_def
  by (intro calls_intros; simp)

lemma shared_tail_comment_before_update:
  "list_ex is_UpdatePR (fst (shared_tail inp w pr T found key issueTitle)) \<longrightarrow>
     PostComment key (html_url pr) \<in> set (fst (shared_tail inp w pr T found key issueTitle))"
proof (cases "truthy key")
  case False
  then show ?thesis
    by (simp add: shared_tail_def run_sel)
next
  case True
  show ?thesis
  proof (cases "flag (isOnlyTransition inp)")
    case only: True
    show ?thesis
      apply (rule seq_none)
      using True only unfolding shared_tail_def comment_pr_def Let_def
      by (intro calls_intros; simp)
  next
    case full: False
    show ?thesis
      using True full unfolding shared_tail_def comment_pr_def Let_def
      apply (simp only: if_True if_False not_True_eq_False not_False_eq_True)
      apply (rule seq_skip)
       apply (intro calls_intros; simp)
      apply (rule seq_skip)
       apply (intro calls_intros; simp)
      apply (rule seq_skip)
       apply (intro calls_intros; simp)
      apply (rule seq_here)
      apply (simp add: fst_await)
      done
  qed
qed

lemma shared_tail_needs_key:
  "list_ex is_UpdatePR (fst (shared_tail inp w pr T found key issueTitle)) \<Longrightarrow> truthy key"
  by (cases "truthy key") (simp_all add: shared_tail_def run_sel)

text \<open>
  The calls of a run that reaches neither the webhook branch nor the append-only branch:
  the fetch of the title, the summary, the creation of the issue and the end of \<open>main\<close>.
\<close>

lemma main_tail_calls:
  assumes "\<not> (githubToken inp = [] \<and> \<not> githubToken_blank inp)"
    and "\<not> (host inp = [] \<and> \<not> host_blank inp)"
    and "webhook inp = []" and "\<not> flag (isOnlyAppendDesc inp)"
    and "pull_request w = Some pr" and "getPull w = Inr t"
  shows "fst (main inp w) =
           GetPull (number pr) #
           (let T = latestPrTitle_of t pr;
                found = foundInTitle_of T;
                key = resolve_key T (head_ref pr);
                summary = fetch_summary inp w key
            in case snd summary of
                 Inl _ \<Rightarrow> fst summary
               | Inr issueTitle \<Rightarrow>
                   (let created = (if flag (isCreateIssue inp)
                                   then createIssue_mode inp w T found key
                                   else continue (key, issueTitle))
                    in case snd created of
                         Inl _ \<Rightarrow> fst summary @ fst created
                       | Inr (key', issueTitle') \<Rightarrow>
                           fst summary @ fst created
                           @ fst (shared_tail inp w pr T found key' issueTitle')))"
proof -
  have given: "(githubToken inp = [] \<and> \<not> githubToken_blank inp) = False"
    "(host inp = [] \<and> \<not> host_blank inp) = False"
    using assms(1,2) by blast+
  show ?thesis
    unfolding main_def given
    using assms(3-6)
    by (simp add: Let_def fst_and_then snd_and_then fst_await snd_await
        split: sum.splits prod.splits)
qed

section \<open>The key resolver on the examples of the specification\<close>

text \<open>
  C1. The claim: a title in which the key is preceded by a character that is not a
  letter resolves to the full key, and \<open>Fix login bug AB-42\<close> resolves to \<open>AB-42\<close>.
  The code: in this title the space is the character that is not a letter, the dot of
  the pattern takes the \<open>A\<close>, and the group starts after it; the key is \<open>B-42\<close>,
  whatever the branch is.
\<close>

theorem title_key_loses_first_letter:
  "resolve_key (str ''Fix login bug AB-42'') branch = Str (str ''B-42'')"
  by (simp add: resolve_key_def foundInTitle_of_def shift_def first_of_def str_def
      jiraTicketFormat_at_def is_letter_def is_digit_def is_line_terminator_def Let_def)

text \<open>
  The full key is the group when two characters come before it: one that is not a
  letter, and one more.
\<close>

lemma key_after_two_characters:
  "resolve_key (str ''fix: AB-42 login'') branch = Str (str ''AB-42'')"
  by (simp add: resolve_key_def foundInTitle_of_def shift_def first_of_def str_def
      jiraTicketFormat_at_def is_letter_def is_digit_def is_line_terminator_def Let_def)

text \<open>
  C2, as stated: the title \<open>Fix login bug\<close> has no key and the lower-case branch
  \<open>feature/ab-99-fix\<close> gives none either, so the run ends without a mutating call. It
  fails: the pattern takes letters of both cases, the branch gives a key, and the run
  goes on to comment and to update the pull request.
\<close>

theorem lowercase_branch_resolves_key:
  "resolve_key (str ''Fix login bug'') (str ''feature/ab-99-fix'') \<noteq> Undefined \<and>
   list_ex mutating (fst (main example_inputs
     (example_world (example_pr (str ''Fix login bug'') (str ''feature/ab-99-fix'')
        (Str (str ''Details''))))))"
  by code_simp

text \<open>
  C2, amended: when neither the title nor the branch matches the key pattern, no key is
  resolved; with a webhook configured, or with neither \<open>isOnlyAppendDesc\<close> nor
  \<open>isCreateIssue\<close> set, the run then logs that no issue was detected and exits with
  code 0 after the fetch of the title, without any mutating call.
\<close>

theorem no_match_exits_without_mutation:
  assumes "githubToken inp \<noteq> []" and "host inp \<noteq> []"
    and "pull_request w = Some pr" and "getPull w = Inr t"
    and "match_jiraTicketFormat (latestPrTitle_of t pr) = None"
    and "match_jiraTicketFormat (head_ref pr) = None"
    and "webhook inp \<noteq> [] \<or> (\<not> flag (isOnlyAppendDesc inp) \<and> \<not> flag (isCreateIssue inp))"
  shows "resolve_key (latestPrTitle_of t pr) (head_ref pr) = Undefined \<and>
         main inp w = ([GetPull (number pr), Info (str ''No jira issue detected in PR title/branch'')],
                       Inl Exit0) \<and>
         \<not> list_ex mutating (fst (main inp w))"
proof -
  have k: "resolve_key (latestPrTitle_of t pr) (head_ref pr) = Undefined"
    using assms(5,6) by (simp add: resolve_key_Undefined)
  have m: "main inp w = ([GetPull (number pr), Info (str ''No jira issue detected in PR title/branch'')],
                       Inl Exit0)"
    using assms(1-4,7) k
    by (auto simp: main_def fetch_summary_def webhook_mode_def shared_tail_def run_defs Let_def)
  show ?thesis using k m by simp
qed

text \<open>The run for the title \<open>Fix login bug\<close> on the branch \<open>feature/login-fix\<close>.\<close>

theorem no_match_exits_without_mutation_witness:
  "resolve_key (str ''Fix login bug'') (str ''feature/login-fix'') = Undefined \<and>
   main example_inputs
     (example_world (example_pr (str ''Fix login bug'') (str ''feature/login-fix'') (Str (str ''Details''))))
   = ([GetPull 7, Info (str ''No jira issue detected in PR title/branch'')], Inl Exit0) \<and>
   \<not> list_ex mutating (fst (main example_inputs
     (example_world (example_pr (str ''Fix login bug'') (str ''feature/login-fix'') (Str (str ''Details''))))))"
proof -
  let ?pr = "example_pr (str ''Fix login bug'') (str ''feature/login-fix'') (Str (str ''Details''))"
  have 1: "githubToken example_inputs \<noteq> []" by code_simp
  have 2: "host example_inputs \<noteq> []" by code_simp
  have 3: "pull_request (example_world ?pr) = Some ?pr" by (simp add: example_world_def)
  have 4: "getPull (example_world ?pr) = Inr (Str (str ''Fix login bug''))"
    by (simp add: example_world_def example_pr_def)
  have 5: "match_jiraTicketFormat (latestPrTitle_of (Str (str ''Fix login bug'')) ?pr) = None" by code_simp
  have 6: "match_jiraTicketFormat (head_ref ?pr) = None" by code_simp
  have 7: "webhook example_inputs \<noteq> [] \<or>
     (\<not> flag (isOnlyAppendDesc example_inputs) \<and> \<not> flag (isCreateIssue example_inputs))" by code_simp
  have 8: "latestPrTitle_of (Str (str ''Fix login bug'')) ?pr = str ''Fix login bug''"
    by (simp add: latestPrTitle_of_def str_def)
  have 9: "head_ref ?pr = str ''feature/login-fix''" by (simp add: example_pr_def)
  have 10: "number ?pr = 7" by (simp add: example_pr_def)
  show ?thesis
    using no_match_exits_without_mutation [OF 1 2 3 4 5 6 7] unfolding 8 9 10 .
qed

section \<open>The description edit\<close>

text \<open>
  C3. The claim: a pull request body that is nil is edited like the empty string, and
  the append-only mode completes on it. The code: \<open>pr.body.slice\<close> on \<open>null\<close> throws,
  for every pattern and link, so the append-only run fails before it updates the pull
  request; the other two places interpolate \<open>null\<close> as the text \<open>null\<close>.
\<close>

theorem nil_body_append_mode_fails:
  "appendDesc_body rx pattern Null link = Inl TypeError \<and>
   link_then_body link Null = link @ nl @ str ''null'' \<and>
   main (example_inputs\<lparr>isOnlyAppendDesc := str ''true''\<rparr>)
     (example_world (example_pr (str ''fix: AB-42 login'') (str ''feature/login'') Null))
   = ([GetPull 7], Inl (Failed TypeError))"
proof -
  have "appendDesc_body rx pattern Null link = Inl TypeError"
    by (simp add: appendDesc_body_def)
  moreover have "link_then_body link Null = link @ nl @ str ''null''"
    by (simp add: link_then_body_def)
  moreover have "main (example_inputs\<lparr>isOnlyAppendDesc := str ''true''\<rparr>)
     (example_world (example_pr (str ''fix: AB-42 login'') (str ''feature/login'') Null))
   = ([GetPull 7], Inl (Failed TypeError))"
    by code_simp
  ultimately show ?thesis by simp
qed

text \<open>
  C4. The claim: when the anchor pattern matches at \<open>[i, j)\<close>, the result is the body up
  to \<open>j\<close>, a space, the link, and the rest of the body. The code tells a match from no
  match by \<open>from === 0\<close>: an anchor that matches at the start of the body gets no space
  before the link and a newline after it. Here the body is \<open>Ticket: rest\<close> and the
  pattern \<open>Ticket:\<close> matches at \<open>[0, 7)\<close>.
\<close>

theorem anchor_at_start_gets_top_format:
  "appendDesc_body literal_exec (str ''Ticket:'') (Str (str ''Ticket: rest'')) link
     = Inr (str ''Ticket:'' @ link @ nl @ str '' rest'') \<and>
   main (example_inputs\<lparr>email := str ''bot@example.com'', token := str ''secret'',
           isOnlyAppendDesc := str ''true'', appendDescAfterRegex := str ''Ticket:''\<rparr>)
     (example_world (example_pr (str ''fix: AB-42 login'') (str ''feature/login'')
        (Str (str ''Ticket: rest''))))
   = ([GetPull 7,
       Info (str ''Detected jira issue in PR title/branch: AB-42''),
       GetIssueSummary (Str (str ''AB-42'')),
       UpdatePR (PRUpdate None (Some
         (str ''Ticket:[AB-42: Login fails](https://jira.example.com/browse/AB-42)'' @ nl
          @ str '' rest''))),
       Info (str ''update PR description complete'')],
      Inl Exit0)"
proof -
  have "appendDesc_body literal_exec (str ''Ticket:'') (Str (str ''Ticket: rest'')) link
     = Inr (str ''Ticket:'' @ link @ nl @ str '' rest'')"
    by (simp add: appendDesc_body_def literal_exec_def str_def js_slice_def js_slice_from_def nl_def)
  moreover have "main (example_inputs\<lparr>email := str ''bot@example.com'', token := str ''secret'',
           isOnlyAppendDesc := str ''true'', appendDescAfterRegex := str ''Ticket:''\<rparr>)
     (example_world (example_pr (str ''fix: AB-42 login'') (str ''feature/login'')
        (Str (str ''Ticket: rest''))))
   = ([GetPull 7,
       Info (str ''Detected jira issue in PR title/branch: AB-42''),
       GetIssueSummary (Str (str ''AB-42'')),
       UpdatePR (PRUpdate None (Some
         (str ''Ticket:[AB-42: Login fails](https://jira.example.com/browse/AB-42)'' @ nl
          @ str '' rest''))),
       Info (str ''update PR description complete'')],
      Inl Exit0)"
    by code_simp
  ultimately show ?thesis by simp
qed

text \<open>
  C9. Without an anchor pattern the edit is the link, a newline and the body as it was:
  in the append-only branch (line 138, \<open>appendDescAfterRegex\<close> empty) and in the
  template of lines 97, 103 and 210, for every body that is a string and every link.
\<close>

theorem no_anchor_prepends_link:
  "appendDesc_body rx [] (Str b) link = Inr (link @ nl @ b) \<and>
   link_then_body link (Str b) = link @ nl @ b"
  by (simp add: appendDesc_body_def link_then_body_def js_slice_def js_slice_from_def)

text \<open>
  An anchor that matches after the start of the body is handled as C4 says: the body up
  to the end of the match, a space, the link, the rest of the body.
\<close>

lemma anchor_after_start_format:
  assumes "pattern \<noteq> []" and "rx pattern b = Match i word"
    and "0 < i" and "i + length word \<le> length b"
  shows "appendDesc_body rx pattern (Str b) link
           = Inr (take (i + length word) b @ str '' '' @ link @ drop (i + length word) b)"
  using assms
  by (simp add: appendDesc_body_def js_slice_def js_slice_from_def nat_add_distrib)

text \<open>
  C10. In the append-only mode (\<open>isOnlyAppendDesc\<close> set, no webhook), when no key was
  resolved from the title or the branch, the pull request is still updated: the only
  call after the fetch of the title is \<open>updatePR\<close> with a body that holds the link
  \<open>[undefined](HOST/browse/undefined)\<close>. The body of the pull request is a string and
  the anchor pattern, when there is one, is a regular expression.
\<close>

theorem append_mode_without_key_links_undefined:
  assumes "githubToken inp \<noteq> []" and "host inp \<noteq> []"
    and "pull_request w = Some pr" and "getPull w = Inr t"
    and "resolve_key (latestPrTitle_of t pr) (head_ref pr) = Undefined"
    and "webhook inp = []" and "flag (isOnlyAppendDesc inp)"
    and "body pr = Str b"
    and "appendDescAfterRegex inp = [] \<or> regexp_exec w (appendDescAfterRegex inp) b \<noteq> Invalid"
  shows "\<exists>before after.
           main inp w =
             (let update = PRUpdate None
                    (Some (before @ str ''[undefined]('' @ host inp @ str ''/browse/undefined)'' @ after))
              in case updatePR w update of
                   Inl e \<Rightarrow> ([GetPull (number pr), UpdatePR update], Inl (Failed e))
                 | Inr _ \<Rightarrow> ([GetPull (number pr), UpdatePR update,
                              Info (str ''update PR description complete'')], Inl Exit0))"
proof -
  let ?link = "str ''[undefined]('' @ host inp @ str ''/browse/undefined)''"
  have found: "foundInTitle_of (latestPrTitle_of t pr) = None"
    using assms(5) by (simp add: resolve_key_Undefined foundInTitle_of_None)
  have link: "tail_link Undefined None Undefined (host inp) = ?link"
    by (simp add: tail_link_def truthy_match_def str_def)
  obtain before after where edit:
    "appendDesc_body (regexp_exec w) (appendDescAfterRegex inp) (Str b) ?link
       = Inr (before @ ?link @ after)"
  proof (cases "appendDescAfterRegex inp = []")
    case True
    then have "appendDesc_body (regexp_exec w) (appendDescAfterRegex inp) (Str b) ?link
       = Inr ([] @ ?link @ (nl @ b))"
      by (simp add: appendDesc_body_def js_slice_def js_slice_from_def)
    then show ?thesis using that by blast
  next
    case False
    with assms(9) have valid: "regexp_exec w (appendDescAfterRegex inp) b \<noteq> Invalid" by simp
    show ?thesis
    proof (cases "regexp_exec w (appendDescAfterRegex inp) b")
      case Invalid
      with valid show ?thesis by simp
    next
      case NoMatch
      with False have "appendDesc_body (regexp_exec w) (appendDescAfterRegex inp) (Str b) ?link
         = Inr ([] @ ?link @ (nl @ b))"
        by (simp add: appendDesc_body_def js_slice_def js_slice_from_def)
      then show ?thesis using that by blast
    next
      case (Match i word)
      with False have "appendDesc_body (regexp_exec w) (appendDescAfterRegex inp) (Str b) ?link
         = Inr ((js_slice b 0 (int i + int (length word)) @ (if int i = 0 then [] else str '' ''))
                @ ?link
                @ ((if int i = 0 then nl else []) @ js_slice_from b (int i + int (length word))))"
        by (simp add: appendDesc_body_def)
      then show ?thesis using that by blast
    qed
  qed
  have "main inp w =
     (let update = PRUpdate None (Some (before @ ?link @ after))
      in case updatePR w update of
           Inl e \<Rightarrow> ([GetPull (number pr), UpdatePR update], Inl (Failed e))
         | Inr _ \<Rightarrow> ([GetPull (number pr), UpdatePR update,
                      Info (str ''update PR description complete'')], Inl Exit0))"
    using assms(1-8) found link edit
    by (simp add: main_def fetch_summary_def appendDesc_mode_def run_defs Let_def split: sum.splits)
  then show ?thesis unfolding append_assoc by blast
qed

text \<open>The append-only run for the title \<open>Fix login bug\<close> on the branch \<open>feature/login-fix\<close>.\<close>

theorem append_mode_without_key_links_undefined_witness:
  "\<exists>before after.
     main (example_inputs\<lparr>isOnlyAppendDesc := str ''true''\<rparr>)
       (example_world (example_pr (str ''Fix login bug'') (str ''feature/login-fix'')
          (Str (str ''Details''))))
     = (let update = PRUpdate None
              (Some (before @ str ''[undefined]('' @ str ''https://jira.example.com''
                     @ str ''/browse/undefined)'' @ after))
        in case updatePR (example_world (example_pr (str ''Fix login bug'')
                  (str ''feature/login-fix'') (Str (str ''Details'')))) update of
             Inl e \<Rightarrow> ([GetPull 7, UpdatePR update], Inl (Failed e))
           | Inr _ \<Rightarrow> ([GetPull 7, UpdatePR update,
                        Info (str ''update PR description complete'')], Inl Exit0))"
proof -
  let ?inp = "example_inputs\<lparr>isOnlyAppendDesc := str ''true''\<rparr>"
  let ?pr = "example_pr (str ''Fix login bug'') (str ''feature/login-fix'') (Str (str ''Details''))"
  have 1: "githubToken ?inp \<noteq> []" by code_simp
  have 2: "host ?inp \<noteq> []" by code_simp
  have 3: "pull_request (example_world ?pr) = Some ?pr" by (simp add: example_world_def)
  have 4: "getPull (example_world ?pr) = Inr (Str (str ''Fix login bug''))"
    by (simp add: example_world_def example_pr_def)
  have 5: "resolve_key (latestPrTitle_of (Str (str ''Fix login bug'')) ?pr) (head_ref ?pr) = Undefined"
    by code_simp
  have 6: "webhook ?inp = []" by code_simp
  have 7: "flag (isOnlyAppendDesc ?inp)" by code_simp
  have 8: "body ?pr = Str (str ''Details'')" by (simp add: example_pr_def)
  have 9: "appendDescAfterRegex ?inp = [] \<or>
     regexp_exec (example_world ?pr) (appendDescAfterRegex ?inp) (str ''Details'') \<noteq> Invalid"
    by code_simp
  have h: "host ?inp = str ''https://jira.example.com''" by (simp add: example_inputs_def)
  have n: "number ?pr = 7" by (simp add: example_pr_def)
  show ?thesis
    using append_mode_without_key_links_undefined [OF 1 2 3 4 5 6 7 8 9] unfolding h n .
qed

section \<open>The link text and the summary\<close>

text \<open>
  C5. The claim: wherever a link is inserted, it has the summary exactly when one was
  fetched. The webhook branch does that (it tests \<open>issueTitle\<close>); the append-only branch
  and the end of \<open>main\<close> test \<open>foundInTitle\<close> instead. First run: credentials are set,
  the key comes from the branch and the summary \<open>Login fails\<close> is fetched, and the link
  has no summary. Second run: no credentials, so nothing is fetched, the key comes from
  the title, and the link reads \<open>AB-42: undefined\<close>.
\<close>

theorem tail_link_summary_follows_title_match:
  "main (example_inputs\<lparr>email := str ''bot@example.com'', token := str ''secret''\<rparr>)
     (example_world (example_pr (str ''Fix login bug'') (str ''feature/2024_AB-42'')
        (Str (str ''Details''))))
   = ([GetPull 7,
       Info (str ''Detected jira issue in PR title/branch: AB-42''),
       GetIssueSummary (Str (str ''AB-42'')),
       PostComment (Str (str ''AB-42'')) (str ''https://github.com/o/r/pull/7''),
       UpdatePR (PRUpdate (Some (str ''Fix login bug [AB-42]''))
         (Some (str ''[AB-42](https://jira.example.com/browse/AB-42)'' @ nl @ str ''Details''))),
       Info (str ''New issue created'')],
      Inl Finished) \<and>
   main example_inputs
     (example_world (example_pr (str ''fix: AB-42 login'') (str ''feature/login'')
        (Str (str ''Details''))))
   = ([GetPull 7,
       PostComment (Str (str ''AB-42'')) (str ''https://github.com/o/r/pull/7''),
       UpdatePR (PRUpdate None
         (Some (str ''[AB-42: undefined](https://jira.example.com/browse/AB-42)'' @ nl
                @ str ''Details''))),
       Info (str ''New issue created'')],
      Inl Finished)"
  by code_simp

text \<open>
  C6. The claim: a failure of the summary lookup is caught and logged, and the run goes
  on. The code awaits \<open>jira.getIssueSummary(key)\<close> with no handler (the lookup of the
  user id, line 158, has \<open>.catch(core.info)\<close>): when the lookup is rejected the run
  fails there, and nothing after it is called.
\<close>

theorem summary_rejection_fails_run:
  "main (example_inputs\<lparr>email := str ''bot@example.com'', token := str ''secret''\<rparr>)
     ((example_world (example_pr (str ''fix: AB-42 login'') (str ''feature/login'')
         (Str (str ''Details''))))
        \<lparr>getIssueSummary := (\<lambda>_. Inl (Rejected (str ''503'')))\<rparr>)
   = ([GetPull 7,
       Info (str ''Detected jira issue in PR title/branch: AB-42''),
       GetIssueSummary (Str (str ''AB-42''))],
      Inl (Failed (Rejected (str ''503''))))"
  by code_simp

text \<open>
  The lookup of the user id is the call that is caught: its rejection is logged, the
  issue is created without an assignee and the run goes on to its end.
\<close>

lemma user_lookup_rejection_is_logged:
  "main (example_inputs\<lparr>isCreateIssue := str ''true'', project := str ''AB'', type := str ''Task''\<rparr>)
     ((example_world (example_pr (str ''Fix login bug'') (str ''feature/login'')
         (Str (str ''Details''))))
        \<lparr>getUserIdByFuzzyName := (\<lambda>_. Inl (Rejected (str ''404'')))\<rparr>)
   = ([GetPull 7,
       Info (str ''No jira issue detected in PR title/branch''),
       GetUser (str ''octocat''),
       GetUserIdByFuzzyName (Str (str ''Mona Lisa'')),
       InfoError (Rejected (str ''404'')),
       PostIssue (str ''Fix login bug'') Undefined,
       PostComment (Str (str ''AB-100'')) (str ''https://github.com/o/r/pull/7''),
       UpdatePR (PRUpdate (Some (str ''Fix login bug [AB-100]''))
         (Some (str ''[AB-100](https://jira.example.com/browse/AB-100)'' @ nl @ str ''Details''))),
       Info (str ''New issue created'')],
      Inl Finished)"
  by code_simp

section \<open>The modes\<close>

text \<open>
  C8. With a webhook configured, a key resolved and the pull request merged, and every
  call answered: the webhook is posted; the version id is looked up by prefix and put on
  the ticket exactly when \<open>isAddFixVersionOnMerge\<close> is set; the run exits with code 0;
  no update of the pull request and no comment is made.
\<close>

theorem webhook_merged_run:
  assumes "githubToken inp \<noteq> []" and "host inp \<noteq> []"
    and "pull_request w = Some pr" and "getPull w = Inr t"
    and "resolve_key (latestPrTitle_of t pr) (head_ref pr) = key" and "truthy key"
    and "webhook inp \<noteq> []" and "merged pr"
    and "getIssueSummary w key = Inr summary"
    and "request w (webhook inp) key = Inr ()"
    and "getVersionIdByPrefix w (version inp) = Inr versionId"
    and "putFixVersion w key versionId = Inr ()"
  shows "main inp w =
           ([GetPull (number pr)]
            @ (if email inp \<noteq> [] \<and> token inp \<noteq> []
               then [Info (str ''Detected jira issue in PR title/branch: '' @ to_string key),
                     GetIssueSummary key]
               else [])
            @ [Request (webhook inp) key, Info (str ''webhook complete'')]
            @ (if flag (isAddFixVersionOnMerge inp)
               then [GetVersionIdByPrefix (version inp), PutFixVersion key versionId]
               else []),
            Inl Exit0) \<and>
         \<not> list_ex is_UpdatePR (fst (main inp w)) \<and>
         \<not> list_ex is_PostComment (fst (main inp w))"
proof -
  have run: "main inp w =
           ([GetPull (number pr)]
            @ (if email inp \<noteq> [] \<and> token inp \<noteq> []
               then [Info (str ''Detected jira issue in PR title/branch: '' @ to_string key),
                     GetIssueSummary key]
               else [])
            @ [Request (webhook inp) key, Info (str ''webhook complete'')]
            @ (if flag (isAddFixVersionOnMerge inp)
               then [GetVersionIdByPrefix (version inp), PutFixVersion key versionId]
               else []),
            Inl Exit0)"
    using assms
    by (simp add: main_def fetch_summary_def webhook_mode_def run_defs Let_def)
  show ?thesis unfolding run by simp
qed

text \<open>The merged pull request \<open>fix: AB-42 login\<close>, with credentials and the flag set.\<close>

theorem webhook_merged_run_witness:
  "main (example_inputs\<lparr>webhook := str ''https://hook.example.com'',
           email := str ''bot@example.com'', token := str ''secret'',
           version := str ''1.2'', isAddFixVersionOnMerge := str ''true''\<rparr>)
     (example_world ((example_pr (str ''fix: AB-42 login'') (str ''feature/login'')
         (Str (str ''Details'')))\<lparr>merged := True\<rparr>))
   = ([GetPull 7,
       Info (str ''Detected jira issue in PR title/branch: '' @ str ''AB-42''),
       GetIssueSummary (Str (str ''AB-42'')),
       Request (str ''https://hook.example.com'') (Str (str ''AB-42'')),
       Info (str ''webhook complete''),
       GetVersionIdByPrefix (str ''1.2''),
       PutFixVersion (Str (str ''AB-42'')) (Str (str ''10001''))],
      Inl Exit0)"
proof -
  let ?inp = "example_inputs\<lparr>webhook := str ''https://hook.example.com'',
           email := str ''bot@example.com'', token := str ''secret'',
           version := str ''1.2'', isAddFixVersionOnMerge := str ''true''\<rparr>"
  let ?pr = "(example_pr (str ''fix: AB-42 login'') (str ''feature/login'')
         (Str (str ''Details'')))\<lparr>merged := True\<rparr>"
  let ?w = "example_world ?pr"
  let ?key = "Str (str ''AB-42'')"
  have 1: "githubToken ?inp \<noteq> []" by code_simp
  have 2: "host ?inp \<noteq> []" by code_simp
  have 3: "pull_request ?w = Some ?pr" by (simp add: example_world_def)
  have 4: "getPull ?w = Inr (Str (str ''fix: AB-42 login''))"
    by (simp add: example_world_def example_pr_def)
  have 5: "resolve_key (latestPrTitle_of (Str (str ''fix: AB-42 login'')) ?pr) (head_ref ?pr) = ?key"
    by code_simp
  have 6: "truthy ?key" by code_simp
  have 7: "webhook ?inp \<noteq> []" by code_simp
  have 8: "merged ?pr" by (simp add: example_pr_def)
  have 9: "getIssueSummary ?w ?key = Inr (Str (str ''Login fails''))" by (simp add: example_world_def)
  have 10: "request ?w (webhook ?inp) ?key = Inr ()" by (simp add: example_world_def)
  have 11: "getVersionIdByPrefix ?w (version ?inp) = Inr (Str (str ''10001''))"
    by (simp add: example_world_def)
  have 12: "putFixVersion ?w ?key (Str (str ''10001'')) = Inr ()" by (simp add: example_world_def)
  have f: "flag (isAddFixVersionOnMerge ?inp)" by code_simp
  have e: "email ?inp \<noteq> [] \<and> token ?inp \<noteq> []" by code_simp
  have v: "version ?inp = str ''1.2''" "webhook ?inp = str ''https://hook.example.com''"
    by (simp_all add: example_inputs_def)
  have n: "number ?pr = 7" by (simp add: example_pr_def)
  show ?thesis
    using webhook_merged_run [OF 1 2 3 4 5 6 7 8 9 10 11 12] f e
    by (simp add: v n)
qed

text \<open>
  C7. A run without webhook, without \<open>isOnlyAppendDesc\<close> and without
  \<open>isOnlyTransition\<close>, in which every call is answered and a key is there at line 171:
  the key resolved from the title or the branch in the default mode, the key of the
  issue just created in the create-issue mode. The run makes the calls below in this
  order and reaches the end of \<open>main\<close>: it always updates the pull request, after the
  comment. The body of the update is the link for the key, a newline and the body of the
  pull request. The update has a title, \<open>TITLE [KEY]\<close>, exactly when \<open>isCreateIssue\<close> is
  set or the title did not match the key pattern; \<open>postIssue\<close> is among the calls
  exactly when \<open>isCreateIssue\<close> is set, so the title is rewritten exactly when the issue
  was created in this run or the key did not come from the title.
\<close>

theorem tail_makes_update:
  assumes "githubToken inp \<noteq> []" and "host inp \<noteq> []"
    and "pull_request w = Some pr" and "getPull w = Inr t"
    and "webhook inp = []" and "\<not> flag (isOnlyAppendDesc inp)"
    and "\<not> flag (isOnlyTransition inp)"
    and T: "T = latestPrTitle_of t pr"
    and key0: "key0 = resolve_key T (head_ref pr)"
    and summary: "email inp \<noteq> [] \<and> token inp \<noteq> [] \<and> truthy key0
                  \<longrightarrow> getIssueSummary w key0 = Inr summary"
    and create: "flag (isCreateIssue inp) \<longrightarrow>
                   project inp \<noteq> [] \<and> type inp \<noteq> [] \<and> key0 = Undefined \<and>
                   getUser w (actor w) = Inr fullName \<and>
                   postIssue w T userId = Inr new_key \<and>
                   (board inp = [] \<or> getSprints w = Inr (activeSprintId # sprints))"
    and userId: "userId = (case getUserIdByFuzzyName w fullName of Inl e \<Rightarrow> Undefined | Inr u \<Rightarrow> u)"
    and key: "key = (if flag (isCreateIssue inp) then new_key else key0)"
    and "truthy key"
    and issueTitle: "issueTitle =
           (if flag (isCreateIssue inp) then Str T
            else if email inp \<noteq> [] \<and> token inp \<noteq> [] then summary else Undefined)"
    and isMe: "otherAssignedTransition inp \<noteq> [] \<longrightarrow> isMeCreatedIssue w key = Inr isMe"
    and transition: "transition' =
           (if otherAssignedTransition inp \<noteq> [] \<and> \<not> isMe
            then otherAssignedTransition inp else transition inp)"
    and reporter: "flag (isAssignToReporter inp) \<longrightarrow> getIssueReporterId w key = Inr reporterId"
    and writes: "\<forall>k s. postMoveIssuesToSprint w k s = Inr ()"
                "\<forall>k s. postTransitIssue w k s = Inr ()"
                "\<forall>k r. putAssignIssue w k r = Inr ()"
                "\<forall>k u. postComment w k u = Inr ()"
                "\<forall>u. updatePR w u = Inr ()"
  shows "main inp w =
           ([GetPull (number pr)]
            @ (if email inp \<noteq> [] \<and> token inp \<noteq> [] \<and> truthy key0
               then [Info (str ''Detected jira issue in PR title/branch: '' @ to_string key0),
                     GetIssueSummary key0]
               else [])
            @ (if flag (isCreateIssue inp)
               then [Info (str ''No jira issue detected in PR title/branch''),
                     GetUser (actor w),
                     GetUserIdByFuzzyName fullName]
                    @ (case getUserIdByFuzzyName w fullName of
                         Inl e \<Rightarrow> [InfoError e] | Inr _ \<Rightarrow> [])
                    @ [PostIssue T userId]
                    @ (if board inp \<noteq> []
                       then [GetSprints, PostMoveIssuesToSprint key activeSprintId]
                       else [])
               else [])
            @ (if otherAssignedTransition inp \<noteq> [] then [IsMeCreatedIssue key] else [])
            @ (if transition' \<noteq> [] then [PostTransitIssue key transition'] else [])
            @ (if flag (isAssignToReporter inp)
               then [GetIssueReporterId key, PutAssignIssue key reporterId]
               else [])
            @ [PostComment key (html_url pr),
               UpdatePR (PRUpdate
                 (if flag (isCreateIssue inp) \<or> \<not> truthy_match (foundInTitle_of T)
                  then Some (T @ str '' ['' @ to_string key @ str '']'')
                  else None)
                 (Some (link_then_body
                    (tail_link key (foundInTitle_of T) issueTitle (host inp)) (body pr)))),
               Info (str ''New issue created'')],
            Inl Finished) \<and>
         (list_ex is_PostIssue (fst (main inp w)) \<longleftrightarrow> flag (isCreateIssue inp))"
  (is "?run \<and> ?created")
proof -
  have run: ?run
  proof (cases "flag (isCreateIssue inp)")
  case True
  with create have c: "project inp \<noteq> []" "type inp \<noteq> []" "key0 = Undefined"
      "getUser w (actor w) = Inr fullName" "postIssue w T userId = Inr new_key"
      "board inp = [] \<or> getSprints w = Inr (activeSprintId # sprints)"
    by simp_all
  from c(3) key0 have found: "foundInTitle_of T = None"
    by (simp add: resolve_key_Undefined foundInTitle_of_None)
  have k: "key = new_key" using True key by simp
  have s: "fetch_summary inp w key0 = continue Undefined"
    using c(3) by (simp add: fetch_summary_def)
  have cr: "createIssue_mode inp w T None Undefined =
      ([Info (str ''No jira issue detected in PR title/branch''),
        GetUser (actor w), GetUserIdByFuzzyName fullName]
       @ (case getUserIdByFuzzyName w fullName of Inl e \<Rightarrow> [InfoError e] | Inr _ \<Rightarrow> [])
       @ [PostIssue T userId]
       @ (if board inp \<noteq> [] then [GetSprints, PostMoveIssuesToSprint key activeSprintId] else []),
       Inr (key, Str T))"
    using c k userId writes(1)
    by (auto simp: createIssue_mode_def await_catch_info_def truthy_match_def run_defs
        split: sum.splits)
  have tl: "shared_tail inp w pr T None key (Str T) =
      ((if otherAssignedTransition inp \<noteq> [] then [IsMeCreatedIssue key] else [])
       @ (if transition' \<noteq> [] then [PostTransitIssue key transition'] else [])
       @ (if flag (isAssignToReporter inp)
          then [GetIssueReporterId key, PutAssignIssue key reporterId] else [])
       @ [PostComment key (html_url pr),
          UpdatePR (PRUpdate (Some (T @ str '' ['' @ to_string key @ str '']''))
            (Some (link_then_body (tail_link key None (Str T) (host inp)) (body pr)))),
          Info (str ''New issue created'')],
       Inl Finished)"
    using True assms(7,14) isMe transition reporter writes
    by (auto simp: shared_tail_def comment_pr_def run_defs Let_def)
  show ?thesis
    using assms(1-6) True T [symmetric] key0 [symmetric] c(3) found s cr tl issueTitle
    by (simp add: main_def Let_def run_defs)
next
  case False
  have k: "key = key0" using False key by simp
  have tk: "truthy key0" using k assms(14) by simp
  have s: "fetch_summary inp w key0 =
      ((if email inp \<noteq> [] \<and> token inp \<noteq> [] \<and> truthy key0
        then [Info (str ''Detected jira issue in PR title/branch: '' @ to_string key0),
              GetIssueSummary key0]
        else []),
       Inr issueTitle)"
    using False tk summary issueTitle by (auto simp: fetch_summary_def run_defs)
  have tl: "shared_tail inp w pr T (foundInTitle_of T) key issueTitle =
      ((if otherAssignedTransition inp \<noteq> [] then [IsMeCreatedIssue key] else [])
       @ (if transition' \<noteq> [] then [PostTransitIssue key transition'] else [])
       @ (if flag (isAssignToReporter inp)
          then [GetIssueReporterId key, PutAssignIssue key reporterId] else [])
       @ [PostComment key (html_url pr),
          UpdatePR (PRUpdate
            (if \<not> truthy_match (foundInTitle_of T)
             then Some (T @ str '' ['' @ to_string key @ str '']'') else None)
            (Some (link_then_body (tail_link key (foundInTitle_of T) issueTitle (host inp))
               (body pr)))),
          Info (str ''New issue created'')],
       Inl Finished)"
    using False assms(7,14) isMe transition reporter writes
    by (auto simp: shared_tail_def comment_pr_def run_defs Let_def)
  show ?thesis
    using assms(1-6) False T [symmetric] key0 [symmetric] k s tl
    by (simp add: main_def Let_def run_defs)
qed
  have ?created
    unfolding run by (simp split: sum.splits)
  with run show ?thesis by (rule conjI)
qed

text \<open>
  Three runs: the issue is created (with a board), the key is in the title (with
  credentials, a transition and the assignment to the reporter), the key is in the
  branch.
\<close>

theorem tail_makes_update_witness:
  "main (example_inputs\<lparr>project := str ''AB'', type := str ''Task'', board := str ''3'',
           isCreateIssue := str ''true''\<rparr>)
     (example_world (example_pr (str ''Fix login bug'') (str ''feature/login'')
        (Str (str ''Details''))))
   = ([GetPull 7,
       Info (str ''No jira issue detected in PR title/branch''),
       GetUser (str ''octocat''),
       GetUserIdByFuzzyName (Str (str ''Mona Lisa'')),
       PostIssue (str ''Fix login bug'') (Str (str ''acc-1'')),
       GetSprints,
       PostMoveIssuesToSprint (Str (str ''AB-100'')) (Str (str ''5'')),
       PostComment (Str (str ''AB-100'')) (str ''https://github.com/o/r/pull/7''),
       UpdatePR (PRUpdate (Some (str ''Fix login bug [AB-100]''))
         (Some (str ''[AB-100](https://jira.example.com/browse/AB-100)'' @ nl @ str ''Details''))),
       Info (str ''New issue created'')],
      Inl Finished) \<and>
   main (example_inputs\<lparr>email := str ''bot@example.com'', token := str ''secret'',
           transition := str ''In Review'', isAssignToReporter := str ''true''\<rparr>)
     (example_world (example_pr (str ''fix: AB-42 login'') (str ''feature/login'')
        (Str (str ''Details''))))
   = ([GetPull 7,
       Info (str ''Detected jira issue in PR title/branch: AB-42''),
       GetIssueSummary (Str (str ''AB-42'')),
       PostTransitIssue (Str (str ''AB-42'')) (str ''In Review''),
       GetIssueReporterId (Str (str ''AB-42'')),
       PutAssignIssue (Str (str ''AB-42'')) (Str (str ''acc-2'')),
       PostComment (Str (str ''AB-42'')) (str ''https://github.com/o/r/pull/7''),
       UpdatePR (PRUpdate None
         (Some (str ''[AB-42: Login fails](https://jira.example.com/browse/AB-42)'' @ nl
                @ str ''Details''))),
       Info (str ''New issue created'')],
      Inl Finished) \<and>
   main example_inputs
     (example_world (example_pr (str ''Fix login bug'') (str ''feature/2024_AB-42'')
        (Str (str ''Details''))))
   = ([GetPull 7,
       PostComment (Str (str ''AB-42'')) (str ''https://github.com/o/r/pull/7''),
       UpdatePR (PRUpdate (Some (str ''Fix login bug [AB-42]''))
         (Some (str ''[AB-42](https://jira.example.com/browse/AB-42)'' @ nl @ str ''Details''))),
       Info (str ''New issue created'')],
      Inl Finished)"
  (is "?created \<and> ?from_title \<and> ?from_branch")
proof -
  have created: ?created
  proof -
    let ?inp = "example_inputs\<lparr>project := str ''AB'', type := str ''Task'', board := str ''3'', isCreateIssue := str ''true''\<rparr>"
    let ?pr = "example_pr (str ''Fix login bug'') (str ''feature/login'') (Str (str ''Details''))"
    let ?w = "example_world ?pr"
    let ?T = "str ''Fix login bug''"
    let ?resolved = "Undefined"
    let ?key = "Str (str ''AB-100'')"
    have a: "githubToken ?inp \<noteq> []" "host ?inp \<noteq> []"
      "pull_request ?w = Some ?pr" "getPull ?w = Inr (Str ?T)"
      "webhook ?inp = []" "\<not> flag (isOnlyAppendDesc ?inp)" "\<not> flag (isOnlyTransition ?inp)"
      by (simp_all add: example_eval)
    have T: "?T = latestPrTitle_of (Str ?T) ?pr"
      by (simp add: latestPrTitle_of_def example_eval)
    have key0: "?resolved = resolve_key ?T (head_ref ?pr)"
      and found: "foundInTitle_of ?T = None"
      by code_simp+
    have summary: "email ?inp \<noteq> [] \<and> token ?inp \<noteq> [] \<and> truthy ?resolved
        \<longrightarrow> getIssueSummary ?w ?resolved = Inr (Undefined)"
      by (simp add: example_eval)
    have create: "flag (isCreateIssue ?inp) \<longrightarrow>
        project ?inp \<noteq> [] \<and> type ?inp \<noteq> [] \<and> ?resolved = Undefined \<and>
        getUser ?w (actor ?w) = Inr (Str (str ''Mona Lisa'')) \<and>
        postIssue ?w ?T (Str (str ''acc-1'')) = Inr (Str (str ''AB-100'')) \<and>
        (board ?inp = [] \<or> getSprints ?w = Inr (Str (str ''5'') # []))"
      by (simp add: example_eval)
    have userId: "Str (str ''acc-1'') =
        (case getUserIdByFuzzyName ?w (Str (str ''Mona Lisa'')) of Inl e \<Rightarrow> Undefined | Inr u \<Rightarrow> u)"
      by (simp add: example_eval)
    have key: "?key = (if flag (isCreateIssue ?inp) then Str (str ''AB-100'') else ?resolved)"
      and tk: "truthy ?key"
      and issueTitle: "Str (str ''Fix login bug'') = (if flag (isCreateIssue ?inp) then Str ?T
         else if email ?inp \<noteq> [] \<and> token ?inp \<noteq> [] then Undefined else Undefined)"
      by (simp_all add: example_eval)
    have isMe: "otherAssignedTransition ?inp \<noteq> [] \<longrightarrow> isMeCreatedIssue ?w ?key = Inr True"
      and transition: "[] = (if otherAssignedTransition ?inp \<noteq> [] \<and> \<not> True
         then otherAssignedTransition ?inp else transition ?inp)"
      and reporter: "flag (isAssignToReporter ?inp)
         \<longrightarrow> getIssueReporterId ?w ?key = Inr (Str (str ''acc-2''))"
      by (simp_all add: example_eval)
    have writes:
      "\<forall>k s. postMoveIssuesToSprint ?w k s = Inr ()"
      "\<forall>k s. postTransitIssue ?w k s = Inr ()"
      "\<forall>k r. putAssignIssue ?w k r = Inr ()"
      "\<forall>k u. postComment ?w k u = Inr ()"
      "\<forall>u. updatePR ?w u = Inr ()"
      by (simp_all add: example_eval)
    note run = tail_makes_update [OF a T key0 summary create userId key tk issueTitle isMe
        transition reporter writes]
    show ?thesis
      using run found by (simp add: example_eval)
  qed
  have from_title: ?from_title
  proof -
    let ?inp = "example_inputs\<lparr>email := str ''bot@example.com'', token := str ''secret'', transition := str ''In Review'', isAssignToReporter := str ''true''\<rparr>"
    let ?pr = "example_pr (str ''fix: AB-42 login'') (str ''feature/login'') (Str (str ''Details''))"
    let ?w = "example_world ?pr"
    let ?T = "str ''fix: AB-42 login''"
    let ?resolved = "Str (str ''AB-42'')"
    let ?key = "Str (str ''AB-42'')"
    have a: "githubToken ?inp \<noteq> []" "host ?inp \<noteq> []"
      "pull_request ?w = Some ?pr" "getPull ?w = Inr (Str ?T)"
      "webhook ?inp = []" "\<not> flag (isOnlyAppendDesc ?inp)" "\<not> flag (isOnlyTransition ?inp)"
      by (simp_all add: example_eval)
    have T: "?T = latestPrTitle_of (Str ?T) ?pr"
      by (simp add: latestPrTitle_of_def example_eval)
    have key0: "?resolved = resolve_key ?T (head_ref ?pr)"
      and found: "foundInTitle_of ?T = Some [str ''AB-42'']"
      by code_simp+
    have summary: "email ?inp \<noteq> [] \<and> token ?inp \<noteq> [] \<and> truthy ?resolved
        \<longrightarrow> getIssueSummary ?w ?resolved = Inr (Str (str ''Login fails''))"
      by (simp add: example_eval)
    have create: "flag (isCreateIssue ?inp) \<longrightarrow>
        project ?inp \<noteq> [] \<and> type ?inp \<noteq> [] \<and> ?resolved = Undefined \<and>
        getUser ?w (actor ?w) = Inr (Str (str ''Mona Lisa'')) \<and>
        postIssue ?w ?T (Str (str ''acc-1'')) = Inr (Str (str ''AB-100'')) \<and>
        (board ?inp = [] \<or> getSprints ?w = Inr (Str (str ''5'') # []))"
      by (simp add: example_eval)
    have userId: "Str (str ''acc-1'') =
        (case getUserIdByFuzzyName ?w (Str (str ''Mona Lisa'')) of Inl e \<Rightarrow> Undefined | Inr u \<Rightarrow> u)"
      by (simp add: example_eval)
    have key: "?key = (if flag (isCreateIssue ?inp) then Str (str ''AB-100'') else ?resolved)"
      and tk: "truthy ?key"
      and issueTitle: "Str (str ''Login fails'') = (if flag (isCreateIssue ?inp) then Str ?T
         else if email ?inp \<noteq> [] \<and> token ?inp \<noteq> [] then Str (str ''Login fails'') else Undefined)"
      by (simp_all add: example_eval)
    have isMe: "otherAssignedTransition ?inp \<noteq> [] \<longrightarrow> isMeCreatedIssue ?w ?key = Inr True"
      and transition: "str ''In Review'' = (if otherAssignedTransition ?inp \<noteq> [] \<and> \<not> True
         then otherAssignedTransition ?inp else transition ?inp)"
      and reporter: "flag (isAssignToReporter ?inp)
         \<longrightarrow> getIssueReporterId ?w ?key = Inr (Str (str ''acc-2''))"
      by (simp_all add: example_eval)
    have writes:
      "\<forall>k s. postMoveIssuesToSprint ?w k s = Inr ()"
      "\<forall>k s. postTransitIssue ?w k s = Inr ()"
      "\<forall>k r. putAssignIssue ?w k r = Inr ()"
      "\<forall>k u. postComment ?w k u = Inr ()"
      "\<forall>u. updatePR ?w u = Inr ()"
      by (simp_all add: example_eval)
    note run = tail_makes_update [OF a T key0 summary create userId key tk issueTitle isMe
        transition reporter writes]
    show ?thesis
      using run found by (simp add: example_eval)
  qed
  have from_branch: ?from_branch
  proof -
    let ?inp = "example_inputs"
    let ?pr = "example_pr (str ''Fix login bug'') (str ''feature/2024_AB-42'') (Str (str ''Details''))"
    let ?w = "example_world ?pr"
    let ?T = "str ''Fix login bug''"
    let ?resolved = "Str (str ''AB-42'')"
    let ?key = "Str (str ''AB-42'')"
    have a: "githubToken ?inp \<noteq> []" "host ?inp \<noteq> []"
      "pull_request ?w = Some ?pr" "getPull ?w = Inr (Str ?T)"
      "webhook ?inp = []" "\<not> flag (isOnlyAppendDesc ?inp)" "\<not> flag (isOnlyTransition ?inp)"
      by (simp_all add: example_eval)
    have T: "?T = latestPrTitle_of (Str ?T) ?pr"
      by (simp add: latestPrTitle_of_def example_eval)
    have key0: "?resolved = resolve_key ?T (head_ref ?pr)"
      and found: "foundInTitle_of ?T = None"
      by code_simp+
    have summary: "email ?inp \<noteq> [] \<and> token ?inp \<noteq> [] \<and> truthy ?resolved
        \<longrightarrow> getIssueSummary ?w ?resolved = Inr (Undefined)"
      by (simp add: example_eval)
    have create: "flag (isCreateIssue ?inp) \<longrightarrow>
        project ?inp \<noteq> [] \<and> type ?inp \<noteq> [] \<and> ?resolved = Undefined \<and>
        getUser ?w (actor ?w) = Inr (Str (str ''Mona Lisa'')) \<and>
        postIssue ?w ?T (Str (str ''acc-1'')) = Inr (Str (str ''AB-100'')) \<and>
        (board ?inp = [] \<or> getSprints ?w = Inr (Str (str ''5'') # []))"
      by (simp add: example_eval)
    have userId: "Str (str ''acc-1'') =
        (case getUserIdByFuzzyName ?w (Str (str ''Mona Lisa'')) of Inl e \<Rightarrow> Undefined | Inr u \<Rightarrow> u)"
      by (simp add: example_eval)
    have key: "?key = (if flag (isCreateIssue ?inp) then Str (str ''AB-100'') else ?resolved)"
      and tk: "truthy ?key"
      and issueTitle: "Undefined = (if flag (isCreateIssue ?inp) then Str ?T
         else if email ?inp \<noteq> [] \<and> token ?inp \<noteq> [] then Undefined else Undefined)"
      by (simp_all add: example_eval)
    have isMe: "otherAssignedTransition ?inp \<noteq> [] \<longrightarrow> isMeCreatedIssue ?w ?key = Inr True"
      and transition: "[] = (if otherAssignedTransition ?inp \<noteq> [] \<and> \<not> True
         then otherAssignedTransition ?inp else transition ?inp)"
      and reporter: "flag (isAssignToReporter ?inp)
         \<longrightarrow> getIssueReporterId ?w ?key = Inr (Str (str ''acc-2''))"
      by (simp_all add: example_eval)
    have writes:
      "\<forall>k s. postMoveIssuesToSprint ?w k s = Inr ()"
      "\<forall>k s. postTransitIssue ?w k s = Inr ()"
      "\<forall>k r. putAssignIssue ?w k r = Inr ()"
      "\<forall>k u. postComment ?w k u = Inr ()"
      "\<forall>u. updatePR ?w u = Inr ()"
      by (simp_all add: example_eval)
    note run = tail_makes_update [OF a T key0 summary create userId key tk issueTitle isMe
        transition reporter writes]
    show ?thesis
      using run found by (simp add: example_eval)
  qed
  from created from_title from_branch show ?thesis by (intro conjI)
qed

text \<open>
  Whatever the collaborators answer, an update of the pull request in a run without
  webhook and without \<open>isOnlyAppendDesc\<close> is the one above: it comes after the comment for
  the same key and has the same title and body.
\<close>

lemma every_tail_update_has_shape:
  assumes "webhook inp = []" and "\<not> flag (isOnlyAppendDesc inp)"
    and "pull_request w = Some pr" and "getPull w = Inr t"
    and "UpdatePR update \<in> set (fst (main inp w))"
  shows "\<exists>key issueTitle.
           truthy key \<and>
           PostComment key (html_url pr) \<in> set (fst (main inp w)) \<and>
           (list_ex is_PostIssue (fst (main inp w))
            \<or> key = resolve_key (latestPrTitle_of t pr) (head_ref pr)) \<and>
           update = PRUpdate
             (if list_ex is_PostIssue (fst (main inp w))
                 \<or> \<not> truthy_match (foundInTitle_of (latestPrTitle_of t pr))
              then Some (latestPrTitle_of t pr @ str '' ['' @ to_string key @ str '']'')
              else None)
             (Some (link_then_body
                (tail_link key (foundInTitle_of (latestPrTitle_of t pr)) issueTitle (host inp))
                (body pr)))"
proof -
  let ?T = "latestPrTitle_of t pr"
  let ?found = "foundInTitle_of ?T"
  let ?key = "resolve_key ?T (head_ref pr)"
  let ?S = "fetch_summary inp w ?key"
  have req: "\<not> (githubToken inp = [] \<and> \<not> githubToken_blank inp)"
    "\<not> (host inp = [] \<and> \<not> host_blank inp)"
    using assms(5) by (auto simp: main_def throw_def split: if_splits)
  note calls = main_tail_calls [OF req assms(1-4)]
  have S_quiet: "UpdatePR update \<notin> set (fst ?S)" "\<not> list_ex is_PostIssue (fst ?S)"
    using fetch_summary_quiet [of inp w ?key] by (fastforce simp: list_all_iff list_ex_iff)+
  obtain issueTitle where S: "snd ?S = Inr issueTitle"
  proof (cases "snd ?S")
    case (Inl out)
    with calls have "fst (main inp w) = GetPull (number pr) # fst ?S"
      by (simp add: Let_def)
    with assms(5) S_quiet show ?thesis by auto
  next
    case (Inr x)
    then show ?thesis using that by blast
  qed
  let ?C = "if flag (isCreateIssue inp) then createIssue_mode inp w ?T ?found ?key
            else continue (?key, issueTitle)"
  have C_quiet: "UpdatePR update \<notin> set (fst ?C)"
    using createIssue_mode_quiet [of inp w ?T ?found ?key]
    by (fastforce simp: list_all_iff continue_def split: if_splits)
  obtain key' issueTitle' where C: "snd ?C = Inr (key', issueTitle')"
  proof (cases "snd ?C")
    case (Inl out)
    with calls S have "fst (main inp w) = GetPull (number pr) # fst ?S @ fst ?C"
      by (simp add: Let_def)
    with assms(5) S_quiet C_quiet show ?thesis by auto
  next
    case (Inr x)
    then show ?thesis using that by (cases x) blast
  qed
  let ?tail = "shared_tail inp w pr ?T ?found key' issueTitle'"
  have trace: "fst (main inp w) = GetPull (number pr) # fst ?S @ fst ?C @ fst ?tail"
    using calls S C by (simp add: Let_def)
  have in_tail: "UpdatePR update \<in> set (fst ?tail)"
    using assms(5) S_quiet C_quiet unfolding trace by auto
  then have ex: "list_ex is_UpdatePR (fst ?tail)"
    by (rule UpdatePR_in_calls)
  have key: "truthy key'" using ex by (rule shared_tail_needs_key)
  have comment: "PostComment key' (html_url pr) \<in> set (fst (main inp w))"
    using ex shared_tail_comment_before_update [of inp w pr ?T ?found key' issueTitle']
    unfolding trace by simp
  have upd: "update = PRUpdate
           (if flag (isCreateIssue inp) \<or> \<not> truthy_match ?found
            then Some (?T @ str '' ['' @ to_string key' @ str '']'') else None)
           (Some (link_then_body (tail_link key' ?found issueTitle' (host inp)) (body pr)))"
    using in_tail shared_tail_only_update [of inp ?found ?T key' issueTitle' pr w]
    by (fastforce simp: list_all_iff)
  have created: "list_ex is_PostIssue (fst (main inp w)) \<longleftrightarrow> flag (isCreateIssue inp)"
  proof (cases "flag (isCreateIssue inp)")
    case True
    with C have "list_ex is_PostIssue (fst ?C)"
      using createIssue_mode_created [of inp w ?T ?found ?key key' issueTitle'] by simp
    then show ?thesis using True unfolding trace by (auto simp: list_ex_iff)
  next
    case False
    have "\<not> list_ex is_PostIssue (fst ?tail)"
      using shared_tail_no_PostIssue [of inp w pr ?T ?found key' issueTitle']
      by (auto simp: list_all_iff list_ex_iff)
    then show ?thesis using False S_quiet unfolding trace
      by (auto simp: list_ex_iff continue_def)
  qed
  have same: "list_ex is_PostIssue (fst (main inp w)) \<or> key' = ?key"
    using created C by (auto simp: continue_def)
  show ?thesis
    using key comment same upd unfolding created by blast
qed

end
